theory Spec2Isabelle
  imports Main "HOL-Library.Word"
begin

section \<open>The FractionalRealEstate contract\<close>

text \<open>
  A shallow embedding of the smart contract \<^verbatim>\<open>FractionalRealEstate\<close>: its box map of
  property records, its four public methods and its two private helpers. The contract
  runs on the AVM, whose \<^verbatim>\<open>uint64\<close> arithmetic halts the program on overflow and on
  underflow, and whose ledger discards every effect of a call that fails.
\<close>

subsection \<open>Values\<close>

type_synonym uint64 = "64 word"

text \<open>An account address is a 32-byte public key; \<^verbatim>\<open>Global.zeroAddress\<close> is 32 zero bytes.\<close>

type_synonym addr = "256 word"

definition zeroAddress :: addr where
  "zeroAddress = 0"

text \<open>
  The failures of a call: a failed \<^verbatim>\<open>assert\<close> with its message, a failed
  \<^verbatim>\<open>assertMatch\<close>, an arithmetic overflow or underflow of the AVM, and an inner
  transaction that the ledger rejects.
\<close>

datatype error =
    AssertFailed string
  | AssertMatchFailed
  | Overflow
  | Underflow
  | InnerTxnRejected

text \<open>The AVM opcodes \<^verbatim>\<open>+\<close>, \<^verbatim>\<open>*\<close> and \<^verbatim>\<open>-\<close> on \<^verbatim>\<open>uint64\<close>: they fail, they never wrap.\<close>

definition u64_add :: "uint64 \<Rightarrow> uint64 \<Rightarrow> error + uint64" where
  "u64_add a b = (if unat a + unat b < 2 ^ 64 then Inr (a + b) else Inl Overflow)"

definition u64_mul :: "uint64 \<Rightarrow> uint64 \<Rightarrow> error + uint64" where
  "u64_mul a b = (if unat a * unat b < 2 ^ 64 then Inr (a * b) else Inl Overflow)"

definition u64_sub :: "uint64 \<Rightarrow> uint64 \<Rightarrow> error + uint64" where
  "u64_sub a b = (if b \<le> a then Inr (a - b) else Inl Underflow)"

text \<open>\<^verbatim>\<open>Bytes(s).length\<close>: the number of bytes of a string, as a \<^verbatim>\<open>uint64\<close>.\<close>

definition bytes_length :: "string \<Rightarrow> error + uint64" where
  "bytes_length b = (if length b < 2 ^ 64 then Inr (of_nat (length b)) else Inl Overflow)"

subsection \<open>Data model\<close>

record PropertyStruct =
  address :: string
  totalShares :: uint64
  availableShares :: uint64
  pricePerShare :: uint64
  propertyAssetId :: uint64
  ownerAddress :: addr

text \<open>The fields of a group payment transaction that the contract reads.\<close>

record PaymentTxn =
  amount :: uint64
  receiver :: addr
  sender :: addr
  closeRemainderTo :: addr
  rekeyTo :: addr

text \<open>\<^verbatim>\<open>Txn.sender\<close> and \<^verbatim>\<open>Global.currentApplicationAddress\<close> of a call.\<close>

record Ctx =
  txnSender :: addr
  currentApplicationAddress :: addr

text \<open>The parameters that \<^verbatim>\<open>createPropertyAsset\<close> sets on the asset it creates.\<close>

record AssetParams =
  assetName :: string
  unitName :: string
  total :: uint64
  decimals :: uint64
  manager :: addr
  reserve :: addr

text \<open>
  The state a call works on: the box map \<^verbatim>\<open>listedProperties\<close> of the contract and the
  part of the ledger its inner transactions touch, which is the created assets, the asset
  holdings of the accounts (an account that has not opted in to an asset has no holding),
  the microAlgo balances, and the counter the ledger draws fresh asset identifiers from.
  A call starts from the ledger as the earlier transactions of its group have left it,
  the payment it inspects among them. Fees and minimum-balance requirements of the ledger
  are outside this model.
\<close>

record State =
  listedProperties :: "uint64 \<rightharpoonup> PropertyStruct"
  assets :: "uint64 \<rightharpoonup> AssetParams"
  holdings :: "addr \<Rightarrow> uint64 \<rightharpoonup> uint64"
  algos :: "addr \<Rightarrow> uint64"
  idCounter :: uint64

subsection \<open>Inner transactions\<close>

text \<open>
  \<^verbatim>\<open>itxn.assetConfig({...}).submit()\<close> without an asset to configure creates an asset:
  the ledger gives it the next identifier and credits the whole supply to the creator,
  here the application account.
\<close>

definition submit_assetConfig :: "State \<Rightarrow> Ctx \<Rightarrow> AssetParams \<Rightarrow> error + (uint64 \<times> State)" where
  "submit_assetConfig s ctx params =
     (if idCounter s = - 1 then Inl InnerTxnRejected
      else
        let createdAsset = idCounter s + 1;
            creator = currentApplicationAddress ctx
        in Inr (createdAsset,
                s\<lparr>assets := (assets s)(createdAsset \<mapsto> params),
                  holdings := (holdings s)(creator := (holdings s creator)(createdAsset \<mapsto> total params)),
                  idCounter := createdAsset\<rparr>))"

text \<open>
  An asset transfer moves units between two accounts that both hold the asset; it is
  rejected when the sender has too few units or the receiver has not opted in.
\<close>

definition apply_assetTransfer :: "uint64 \<Rightarrow> addr \<Rightarrow> addr \<Rightarrow> uint64 \<Rightarrow> State \<Rightarrow> error + State" where
  "apply_assetTransfer xferAsset from assetReceiver assetAmount s =
     (case holdings s from xferAsset of
        None \<Rightarrow> Inl InnerTxnRejected
      | Some fb \<Rightarrow>
          if fb < assetAmount then Inl InnerTxnRejected
          else
            let s1 = s\<lparr>holdings := (holdings s)(from := (holdings s from)(xferAsset \<mapsto> fb - assetAmount))\<rparr>
            in (case holdings s1 assetReceiver xferAsset of
                  None \<Rightarrow> Inl InnerTxnRejected
                | Some rb \<Rightarrow>
                    if \<not> unat rb + unat assetAmount < 2 ^ 64 then Inl InnerTxnRejected
                    else Inr (s1\<lparr>holdings := (holdings s1)
                                (assetReceiver := (holdings s1 assetReceiver)(xferAsset \<mapsto> rb + assetAmount))\<rparr>)))"

text \<open>A payment moves microAlgos; it is rejected when the sender has too few.\<close>

definition apply_payment :: "addr \<Rightarrow> addr \<Rightarrow> uint64 \<Rightarrow> State \<Rightarrow> error + State" where
  "apply_payment from to amt s =
     (if algos s from < amt then Inl InnerTxnRejected
      else
        let s1 = s\<lparr>algos := (algos s)(from := algos s from - amt)\<rparr>
        in if \<not> unat (algos s1 to) + unat amt < 2 ^ 64 then Inl InnerTxnRejected
           else Inr (s1\<lparr>algos := (algos s1)(to := algos s1 to + amt)\<rparr>))"

text \<open>
  \<^verbatim>\<open>itxn.submitGroup(itxn.assetTransfer({...}), itxn.payment({...}))\<close>, both sent by the
  application account: the two transactions apply in order, and together or not at all.
\<close>

definition submitGroup :: "State \<Rightarrow> Ctx \<Rightarrow> uint64 \<Rightarrow> addr \<Rightarrow> uint64 \<Rightarrow> uint64 \<Rightarrow> addr \<Rightarrow> error + State" where
  "submitGroup s ctx xferAsset assetReceiver assetAmount payAmount payReceiver =
     (case apply_assetTransfer xferAsset (currentApplicationAddress ctx) assetReceiver assetAmount s of
        Inl e \<Rightarrow> Inl e
      | Inr s1 \<Rightarrow> apply_payment (currentApplicationAddress ctx) payReceiver payAmount s1)"

subsection \<open>The methods of the contract\<close>

text \<open>
  \<^verbatim>\<open>2500 + 400 * (18 + 68 + Bytes(propertyAddress).length)\<close>, in the arithmetic of the AVM.
\<close>

definition boxMbrCost :: "string \<Rightarrow> error + uint64" where
  "boxMbrCost propertyAddress =
     (case bytes_length propertyAddress of
        Inl e \<Rightarrow> Inl e
      | Inr n \<Rightarrow>
          (case u64_add (18 + 68) n of
             Inl e \<Rightarrow> Inl e
           | Inr m \<Rightarrow>
               (case u64_mul 400 m of
                  Inl e \<Rightarrow> Inl e
                | Inr k \<Rightarrow> u64_add 2500 k)))"

definition createPropertyAsset :: "State \<Rightarrow> Ctx \<Rightarrow> string \<Rightarrow> uint64 \<Rightarrow> error + (uint64 \<times> State)" where
  "createPropertyAsset s ctx propertyAddress shares =
     submit_assetConfig s ctx
       \<lparr>assetName = take 32 propertyAddress,
        unitName = ''PROP'',
        total = shares,
        decimals = 0,
        manager = currentApplicationAddress ctx,
        reserve = currentApplicationAddress ctx\<rparr>"

definition createPropertyListing ::
  "State \<Rightarrow> Ctx \<Rightarrow> PaymentTxn \<Rightarrow> string \<Rightarrow> uint64 \<Rightarrow> uint64 \<Rightarrow> error + (uint64 \<times> State)" where
  "createPropertyListing s ctx mbrPayment propertyAddress shares pricePerShare' =
     (if \<not> shares > 0 then Inl (AssertFailed ''Shares must be greater than 0'')
      else if \<not> pricePerShare' > 0 then Inl (AssertFailed ''Price per share must be greater than 0'')
      else
        (case boxMbrCost propertyAddress of
           Inl e \<Rightarrow> Inl e
         | Inr boxMbrCost' \<Rightarrow>
             if \<not> amount mbrPayment \<ge> boxMbrCost' then
               Inl (AssertFailed ''MBR payment amount is insufficient'')
             else if receiver mbrPayment \<noteq> currentApplicationAddress ctx then
               Inl (AssertFailed ''MBR payment must be to the app'')
             else if sender mbrPayment \<noteq> txnSender ctx then
               Inl (AssertFailed ''MBR payment must be from the caller'')
             else
               (case createPropertyAsset s ctx propertyAddress shares of
                  Inl e \<Rightarrow> Inl e
                | Inr (assetId, s1) \<Rightarrow>
                    let propertyStruct =
                          \<lparr>address = propertyAddress,
                           totalShares = shares,
                           availableShares = shares,
                           pricePerShare = pricePerShare',
                           propertyAssetId = assetId,
                           ownerAddress = txnSender ctx\<rparr>
                    in Inr (assetId,
                            s1\<lparr>listedProperties := (listedProperties s1)(assetId \<mapsto> propertyStruct)\<rparr>))))"

text \<open>
  \<^verbatim>\<open>updateAvailableShares\<close> reads the record, replaces one field and writes it back.
  Reading the value of a box that does not exist fails.
\<close>

definition updateAvailableShares :: "State \<Rightarrow> uint64 \<Rightarrow> uint64 \<Rightarrow> error + State" where
  "updateAvailableShares s propertyId newAvailableShares =
     (case listedProperties s propertyId of
        None \<Rightarrow> Inl (AssertFailed ''Box must have value'')
      | Some propertyStruct \<Rightarrow>
          let updatedStruct = propertyStruct\<lparr>availableShares := newAvailableShares\<rparr>
          in Inr (s\<lparr>listedProperties := (listedProperties s)(propertyId \<mapsto> updatedStruct)\<rparr>))"

definition purchaseFromLister ::
  "State \<Rightarrow> Ctx \<Rightarrow> uint64 \<Rightarrow> uint64 \<Rightarrow> PaymentTxn \<Rightarrow> error + (bool \<times> State)" where
  "purchaseFromLister s ctx propertyId shares payment =
     (if \<not> shares > 0 then Inl (AssertFailed ''Must purchase at least one share'')
      else
        (case listedProperties s propertyId of
           None \<Rightarrow> Inl (AssertFailed ''Property not listed'')
         | Some property \<Rightarrow>
             (case u64_mul shares (pricePerShare property) of
                Inl e \<Rightarrow> Inl e
              | Inr price \<Rightarrow>
                  if \<not> (amount payment = price
                        \<and> receiver payment = currentApplicationAddress ctx
                        \<and> sender payment = txnSender ctx
                        \<and> closeRemainderTo payment = zeroAddress
                        \<and> rekeyTo payment = zeroAddress)
                  then Inl AssertMatchFailed
                  else if \<not> shares \<le> availableShares property then
                    Inl (AssertFailed ''Not enough shares'')
                  else
                    (case submitGroup s ctx (propertyAssetId property) (txnSender ctx) shares
                            (amount payment) (ownerAddress property) of
                       Inl e \<Rightarrow> Inl e
                     | Inr s1 \<Rightarrow>
                         (case u64_sub (availableShares property) shares of
                            Inl e \<Rightarrow> Inl e
                          | Inr newAvailableShares \<Rightarrow>
                              (case updateAvailableShares s1 propertyId newAvailableShares of
                                 Inl e \<Rightarrow> Inl e
                               | Inr s2 \<Rightarrow> Inr (True, s2)))))))"

definition delistProperty :: "State \<Rightarrow> Ctx \<Rightarrow> uint64 \<Rightarrow> error + (unit \<times> State)" where
  "delistProperty s ctx propertyId =
     (case listedProperties s propertyId of
        None \<Rightarrow> Inl (AssertFailed ''Property not listed'')
      | Some property \<Rightarrow>
          if txnSender ctx \<noteq> ownerAddress property then
            Inl (AssertFailed ''Only the owner can delist'')
          else if availableShares property \<noteq> totalShares property then
            Inl (AssertFailed ''Cannot delist property with sold shares'')
          else Inr ((), s\<lparr>listedProperties := (listedProperties s)(propertyId := None)\<rparr>))"

definition getPropertyInfo :: "State \<Rightarrow> uint64 \<Rightarrow> error + (PropertyStruct \<times> State)" where
  "getPropertyInfo s propertyId =
     (case listedProperties s propertyId of
        None \<Rightarrow> Inl (AssertFailed ''Property not listed'')
      | Some property \<Rightarrow> Inr (property, s))"

subsection \<open>Calls and the state they leave\<close>

text \<open>
  A call that fails leaves the state it found: the ledger discards all its effects.
  A call that returns commits the state it computed.
\<close>

definition state_after :: "State \<Rightarrow> error + ('a \<times> State) \<Rightarrow> State" where
  "state_after s r = (case r of Inl e \<Rightarrow> s | Inr (v, s') \<Rightarrow> s')"

datatype call =
    CreatePropertyListing PaymentTxn string uint64 uint64
  | PurchaseFromLister uint64 uint64 PaymentTxn
  | DelistProperty uint64
  | GetPropertyInfo uint64

fun apply_call :: "State \<Rightarrow> Ctx \<Rightarrow> call \<Rightarrow> State" where
  "apply_call s ctx (CreatePropertyListing mbrPayment propertyAddress shares price) =
     state_after s (createPropertyListing s ctx mbrPayment propertyAddress shares price)"
| "apply_call s ctx (PurchaseFromLister propertyId shares payment) =
     state_after s (purchaseFromLister s ctx propertyId shares payment)"
| "apply_call s ctx (DelistProperty propertyId) =
     state_after s (delistProperty s ctx propertyId)"
| "apply_call s ctx (GetPropertyInfo propertyId) =
     state_after s (getPropertyInfo s propertyId)"

subsection \<open>Invariants of the record store\<close>

text \<open>No record offers more shares than its property has.\<close>

definition shares_inv :: "State \<Rightarrow> bool" where
  "shares_inv s \<longleftrightarrow>
     (\<forall>pid p. listedProperties s pid = Some p \<longrightarrow> availableShares p \<le> totalShares p)"

text \<open>
  Every key of the box map is an identifier the ledger has already issued, so the
  identifier of the next created asset is not a key yet.
\<close>

definition ids_issued :: "State \<Rightarrow> bool" where
  "ids_issued s \<longleftrightarrow> (\<forall>k p. listedProperties s k = Some p \<longrightarrow> k \<le> idCounter s)"

text \<open>Two records agree on every field but \<^verbatim>\<open>availableShares\<close>.\<close>

definition same_fixed_fields :: "PropertyStruct \<Rightarrow> PropertyStruct \<Rightarrow> bool" where
  "same_fixed_fields p p' \<longleftrightarrow>
     address p' = address p \<and> totalShares p' = totalShares p
     \<and> pricePerShare p' = pricePerShare p \<and> propertyAssetId p' = propertyAssetId p
     \<and> ownerAddress p' = ownerAddress p"

text \<open>
  Every record is keyed by the identifier of its asset, the asset exists with the
  record's total shares as its supply, and the application account holds at least the
  shares the record still offers.
\<close>

definition custody_inv :: "addr \<Rightarrow> State \<Rightarrow> bool" where
  "custody_inv app s \<longleftrightarrow>
     (\<forall>k p. listedProperties s k = Some p \<longrightarrow>
        propertyAssetId p = k
        \<and> (\<exists>a. assets s k = Some a \<and> total a = totalShares p)
        \<and> (\<exists>h. holdings s app k = Some h \<and> availableShares p \<le> h))"

text \<open>
  A sequence of purchases of one property, each by its own caller, all of which return;
  and the number of shares such a sequence buys.
\<close>

fun purchase_all :: "State \<Rightarrow> uint64 \<Rightarrow> (Ctx \<times> uint64 \<times> PaymentTxn) list \<Rightarrow> error + State" where
  "purchase_all s propertyId [] = Inr s"
| "purchase_all s propertyId ((ctx, shares, payment) # calls) =
     (case purchaseFromLister s ctx propertyId shares payment of
        Inl e \<Rightarrow> Inl e
      | Inr (ok, s') \<Rightarrow> purchase_all s' propertyId calls)"

definition purchased :: "(Ctx \<times> uint64 \<times> PaymentTxn) list \<Rightarrow> nat" where
  "purchased calls = sum_list (map (\<lambda>(ctx, shares, payment). unat shares) calls)"

subsection \<open>A concrete run\<close>

text \<open>
  The scenario of the test suite: a lister lists \<^verbatim>\<open>'123 Main St'\<close> as 100 shares at
  1000000 microAlgos each, and a buyer purchases shares.
\<close>

definition ex_app :: addr where "ex_app = 7"

definition ex_lister :: addr where "ex_lister = 11"

definition ex_buyer :: addr where "ex_buyer = 13"

definition ex_lister_ctx :: Ctx where
  "ex_lister_ctx = \<lparr>txnSender = ex_lister, currentApplicationAddress = ex_app\<rparr>"

definition ex_buyer_ctx :: Ctx where
  "ex_buyer_ctx = \<lparr>txnSender = ex_buyer, currentApplicationAddress = ex_app\<rparr>"

definition ex_mbr :: PaymentTxn where
  "ex_mbr = \<lparr>amount = 100000, receiver = ex_app, sender = ex_lister,
             closeRemainderTo = zeroAddress, rekeyTo = zeroAddress\<rparr>"

definition ex_pay :: "uint64 \<Rightarrow> PaymentTxn" where
  "ex_pay n = \<lparr>amount = n, receiver = ex_app, sender = ex_buyer,
               closeRemainderTo = zeroAddress, rekeyTo = zeroAddress\<rparr>"

definition ex_empty :: State where
  "ex_empty = \<lparr>listedProperties = Map.empty, assets = Map.empty,
               holdings = (\<lambda>a. Map.empty), algos = (\<lambda>a. 0), idCounter = 1000\<rparr>"

definition ex_record :: PropertyStruct where
  "ex_record = \<lparr>address = ''123 Main St'', totalShares = 100, availableShares = 100,
                pricePerShare = 1000000, propertyAssetId = 1001, ownerAddress = ex_lister\<rparr>"

definition ex_asset :: AssetParams where
  "ex_asset = \<lparr>assetName = ''123 Main St'', unitName = ''PROP'', total = 100, decimals = 0,
               manager = ex_app, reserve = ex_app\<rparr>"

definition ex_listed :: State where
  "ex_listed = \<lparr>listedProperties = [1001 \<mapsto> ex_record], assets = [1001 \<mapsto> ex_asset],
                holdings = (\<lambda>a. Map.empty)(ex_app := [1001 \<mapsto> 100]),
                algos = (\<lambda>a. 0), idCounter = 1001\<rparr>"

text \<open>The buyer has opted in to the asset and the application account holds microAlgos.\<close>

definition ex_ready :: State where
  "ex_ready = ex_listed\<lparr>holdings := (\<lambda>a. Map.empty)(ex_app := [1001 \<mapsto> 100], ex_buyer := [1001 \<mapsto> 0]),
                        algos := (\<lambda>a. 0)(ex_app := 100000000)\<rparr>"

section \<open>Properties\<close>

subsection \<open>Arithmetic and the storage cost\<close>



lemma u64_mul_unat: "u64_mul a b = Inr c \<Longrightarrow> unat c = unat a * unat b"
  using unat_mult_lem [of a b] by (auto simp: u64_mul_def split: if_splits)






subsection \<open>What a returning call has checked and done\<close>

lemma state_after_Inl: "state_after s (Inl e) = s"
  by (simp add: state_after_def)

lemma state_after_isl: "isl r \<Longrightarrow> state_after s r = s"
  by (cases r) (simp_all add: state_after_def)

lemma apply_assetTransfer_frame:
  "apply_assetTransfer a f r n s = Inr t \<Longrightarrow>
     listedProperties t = listedProperties s \<and> assets t = assets s
     \<and> algos t = algos s \<and> idCounter t = idCounter s"
  by (auto simp: apply_assetTransfer_def Let_def split: option.splits if_splits)

lemma apply_payment_frame:
  "apply_payment f r n s = Inr t \<Longrightarrow>
     listedProperties t = listedProperties s \<and> assets t = assets s
     \<and> holdings t = holdings s \<and> idCounter t = idCounter s"
  by (auto simp: apply_payment_def Let_def split: if_splits)

lemma submitGroup_boxes:
  assumes "submitGroup s ctx a r n m w = Inr t"
  shows "listedProperties t = listedProperties s" and "assets t = assets s"
    and "idCounter t = idCounter s"
proof -
  from assms obtain t2 where
    t: "apply_assetTransfer a (currentApplicationAddress ctx) r n s = Inr t2" and
    p: "apply_payment (currentApplicationAddress ctx) w m t2 = Inr t"
    by (auto simp: submitGroup_def split: sum.splits)
  from apply_assetTransfer_frame [OF t] apply_payment_frame [OF p]
  show "listedProperties t = listedProperties s" and "assets t = assets s"
    and "idCounter t = idCounter s"
    by simp_all
qed

lemma createPropertyListing_Inr:
  assumes "createPropertyListing s ctx mbr a sh pr = Inr (pid, s')"
  shows "0 < sh" and "0 < pr" and "\<exists>c. boxMbrCost a = Inr c \<and> c \<le> amount mbr"
    and "receiver mbr = currentApplicationAddress ctx" and "sender mbr = txnSender ctx"
    and "idCounter s \<noteq> - 1" and "pid = idCounter s + 1"
    and "s' = s\<lparr>listedProperties := (listedProperties s)(pid \<mapsto>
                   \<lparr>address = a, totalShares = sh, availableShares = sh, pricePerShare = pr,
                    propertyAssetId = pid, ownerAddress = txnSender ctx\<rparr>),
                assets := (assets s)(pid \<mapsto>
                   \<lparr>assetName = take 32 a, unitName = ''PROP'', total = sh, decimals = 0,
                    manager = currentApplicationAddress ctx,
                    reserve = currentApplicationAddress ctx\<rparr>),
                holdings := (holdings s)(currentApplicationAddress ctx :=
                   (holdings s (currentApplicationAddress ctx))(pid \<mapsto> sh)),
                idCounter := pid\<rparr>"
  using assms
  by (auto simp: createPropertyListing_def createPropertyAsset_def submit_assetConfig_def Let_def
      split: if_splits sum.splits)



lemma purchaseFromLister_Inr:
  assumes "purchaseFromLister s ctx pid sh pay = Inr (b, s')"
  shows "\<exists>p t. b \<and> 0 < sh \<and> listedProperties s pid = Some p
           \<and> u64_mul sh (pricePerShare p) = Inr (amount pay)
           \<and> receiver pay = currentApplicationAddress ctx
           \<and> sender pay = txnSender ctx
           \<and> closeRemainderTo pay = zeroAddress
           \<and> rekeyTo pay = zeroAddress
           \<and> sh \<le> availableShares p
           \<and> submitGroup s ctx (propertyAssetId p) (txnSender ctx) sh (amount pay) (ownerAddress p) = Inr t
           \<and> s' = t\<lparr>listedProperties :=
                       (listedProperties s)(pid \<mapsto> p\<lparr>availableShares := availableShares p - sh\<rparr>)\<rparr>"
proof -
  from assms have sh: "0 < sh"
    by (auto simp: purchaseFromLister_def split: if_splits)
  from assms sh obtain p where p: "listedProperties s pid = Some p"
    by (auto simp: purchaseFromLister_def split: option.splits)
  from assms sh p obtain price where price: "u64_mul sh (pricePerShare p) = Inr price"
    by (auto simp: purchaseFromLister_def split: sum.splits)
  from assms sh p price have m: "amount pay = price"
      "receiver pay = currentApplicationAddress ctx" "sender pay = txnSender ctx"
      "closeRemainderTo pay = zeroAddress" "rekeyTo pay = zeroAddress"
    and le: "sh \<le> availableShares p"
    by (auto simp: purchaseFromLister_def split: if_splits)
  from assms sh p price m le obtain t where
    t: "submitGroup s ctx (propertyAssetId p) (txnSender ctx) sh (amount pay) (ownerAddress p) = Inr t"
    by (auto simp: purchaseFromLister_def split: sum.splits)
  have lt: "listedProperties t = listedProperties s"
    by (rule submitGroup_boxes(1) [OF t])
  from assms sh p price m le t lt have
    "b" "s' = t\<lparr>listedProperties :=
             (listedProperties s)(pid \<mapsto> p\<lparr>availableShares := availableShares p - sh\<rparr>)\<rparr>"
    by (auto simp: purchaseFromLister_def updateAvailableShares_def u64_sub_def)
  with sh p price m le t show ?thesis by auto
qed

lemma delistProperty_Inr_iff:
  "delistProperty s ctx pid = Inr (u, s') \<longleftrightarrow>
     (\<exists>p. listedProperties s pid = Some p \<and> txnSender ctx = ownerAddress p
        \<and> availableShares p = totalShares p)
     \<and> s' = s\<lparr>listedProperties := (listedProperties s)(pid := None)\<rparr>"
  by (auto simp: delistProperty_def split: option.splits)

subsection \<open>Purchases and the available shares\<close>

lemma purchase_step_available:
  assumes "purchaseFromLister s ctx pid sh pay = Inr (b, s')"
  shows "\<exists>p p'. listedProperties s pid = Some p \<and> listedProperties s' pid = Some p'
           \<and> p' = p\<lparr>availableShares := availableShares p - sh\<rparr>
           \<and> sh \<le> availableShares p
           \<and> unat (availableShares p') + unat sh = unat (availableShares p)"
proof -
  from purchaseFromLister_Inr [OF assms] obtain p t where
    p: "listedProperties s pid = Some p" and le: "sh \<le> availableShares p" and
    s': "s' = t\<lparr>listedProperties :=
           (listedProperties s)(pid \<mapsto> p\<lparr>availableShares := availableShares p - sh\<rparr>)\<rparr>"
    by blast
  from le have "unat (availableShares p - sh) + unat sh = unat (availableShares p)"
    by (simp add: unat_sub word_le_nat_alt)
  with p le s' show ?thesis by simp
qed

lemma purchase_too_many:
  assumes "listedProperties s pid = Some p" and "availableShares p < sh"
  shows "\<exists>e. purchaseFromLister s ctx pid sh pay = Inl e"
proof (cases "purchaseFromLister s ctx pid sh pay")
  case (Inl e)
  then show ?thesis by simp
next
  case (Inr r)
  obtain b s' where r: "r = (b, s')" by (cases r)
  from purchaseFromLister_Inr [OF Inr [unfolded r]] assms show ?thesis by auto
qed

lemma purchase_all_sum:
  "listedProperties s pid = Some p \<Longrightarrow> purchase_all s pid calls = Inr s' \<Longrightarrow>
     \<exists>p'. listedProperties s' pid = Some p'
        \<and> p' = p\<lparr>availableShares := availableShares p'\<rparr>
        \<and> unat (availableShares p') + purchased calls = unat (availableShares p)"
proof (induction calls arbitrary: s p)
  case Nil
  then show ?case by (simp add: purchased_def)
next
  case (Cons c calls)
  obtain ctx sh pay where c: "c = (ctx, sh, pay)" by (cases c)
  from Cons.prems(2) c obtain b t where
    step: "purchaseFromLister s ctx pid sh pay = Inr (b, t)" and
    rest: "purchase_all t pid calls = Inr s'"
    by (auto split: sum.splits)
  from purchase_step_available [OF step] Cons.prems(1) obtain q where
    q: "listedProperties t pid = Some q" "q = p\<lparr>availableShares := availableShares p - sh\<rparr>"
       "unat (availableShares q) + unat sh = unat (availableShares p)"
    by auto
  from Cons.IH [OF q(1) rest] obtain p' where
    p': "listedProperties s' pid = Some p'" "p' = q\<lparr>availableShares := availableShares p'\<rparr>"
        "unat (availableShares p') + purchased calls = unat (availableShares q)"
    by blast
  have "p' = p\<lparr>availableShares := availableShares p'\<rparr>"
    by (subst p'(2), subst q(2)) simp
  moreover have "unat (availableShares p') + purchased (c # calls) = unat (availableShares p)"
    using p'(3) q(3) c by (simp add: purchased_def)
  ultimately show ?case using p'(1) by blast
qed

lemma shares_inv_apply_call:
  assumes "shares_inv s"
  shows "shares_inv (apply_call s ctx c)"
proof (cases c)
  case (CreatePropertyListing mbr a sh pr)
  show ?thesis
  proof (cases "createPropertyListing s ctx mbr a sh pr")
    case (Inl e)
    with CreatePropertyListing assms show ?thesis by (simp add: state_after_def)
  next
    case (Inr r)
    obtain pid s' where r: "r = (pid, s')" by (cases r)
    from createPropertyListing_Inr(8) [OF Inr [unfolded r]] assms
    have "shares_inv s'" by (simp add: shares_inv_def)
    with CreatePropertyListing Inr r show ?thesis by (simp add: state_after_def)
  qed
next
  case (PurchaseFromLister pid sh pay)
  show ?thesis
  proof (cases "purchaseFromLister s ctx pid sh pay")
    case (Inl e)
    with PurchaseFromLister assms show ?thesis by (simp add: state_after_def)
  next
    case (Inr r)
    obtain b s' where r: "r = (b, s')" by (cases r)
    from purchaseFromLister_Inr [OF Inr [unfolded r]] obtain p t where
      p: "listedProperties s pid = Some p" and le: "sh \<le> availableShares p" and
      s': "s' = t\<lparr>listedProperties :=
           (listedProperties s)(pid \<mapsto> p\<lparr>availableShares := availableShares p - sh\<rparr>)\<rparr>"
      by blast
    from le have "availableShares p - sh \<le> availableShares p"
      by (simp add: word_sub_le)
    moreover from assms p have "availableShares p \<le> totalShares p"
      by (simp add: shares_inv_def)
    ultimately have "availableShares p - sh \<le> totalShares p" by simp
    with assms s' have "shares_inv s'" by (simp add: shares_inv_def)
    with PurchaseFromLister Inr r show ?thesis by (simp add: state_after_def)
  qed
next
  case (DelistProperty pid)
  show ?thesis
  proof (cases "delistProperty s ctx pid")
    case (Inl e)
    with DelistProperty assms show ?thesis by (simp add: state_after_def)
  next
    case (Inr r)
    obtain u s' where r: "r = (u, s')" by (cases r)
    from Inr r have "s' = s\<lparr>listedProperties := (listedProperties s)(pid := None)\<rparr>"
      by (simp add: delistProperty_Inr_iff)
    with assms have "shares_inv s'" by (simp add: shares_inv_def)
    with DelistProperty Inr r show ?thesis by (simp add: state_after_def)
  qed
next
  case (GetPropertyInfo pid)
  with assms show ?thesis
    by (simp add: getPropertyInfo_def state_after_def split: option.splits)
qed

subsection \<open>Fresh identifiers and the fixed fields\<close>

lemma ids_issued_apply_call:
  assumes "ids_issued s"
  shows "ids_issued (apply_call s ctx c)"
proof (cases c)
  case (CreatePropertyListing mbr a sh pr)
  show ?thesis
  proof (cases "createPropertyListing s ctx mbr a sh pr")
    case (Inl e)
    with CreatePropertyListing assms show ?thesis by (simp add: state_after_def)
  next
    case (Inr r)
    obtain pid s' where r: "r = (pid, s')" by (cases r)
    note c = createPropertyListing_Inr [OF Inr [unfolded r]]
    from c(6) have "idCounter s < idCounter s + 1"
      using inc_less_eq_self_iff_eq [of "idCounter s"] by (simp add: not_le)
    then have "idCounter s \<le> pid" using c(7) by simp
    with assms have "ids_issued s'"
      by (subst c(8)) (auto simp: ids_issued_def intro: order_trans)
    with CreatePropertyListing Inr r show ?thesis by (simp add: state_after_def)
  qed
next
  case (PurchaseFromLister pid sh pay)
  show ?thesis
  proof (cases "purchaseFromLister s ctx pid sh pay")
    case (Inl e)
    with PurchaseFromLister assms show ?thesis by (simp add: state_after_def)
  next
    case (Inr r)
    obtain b s' where r: "r = (b, s')" by (cases r)
    from purchaseFromLister_Inr [OF Inr [unfolded r]] obtain p t where
      p: "listedProperties s pid = Some p" and
      t: "submitGroup s ctx (propertyAssetId p) (txnSender ctx) sh (amount pay) (ownerAddress p) = Inr t" and
      s': "s' = t\<lparr>listedProperties :=
           (listedProperties s)(pid \<mapsto> p\<lparr>availableShares := availableShares p - sh\<rparr>)\<rparr>"
      by blast
    from assms p s' submitGroup_boxes(3) [OF t] have "ids_issued s'"
      by (auto simp: ids_issued_def)
    with PurchaseFromLister Inr r show ?thesis by (simp add: state_after_def)
  qed
next
  case (DelistProperty pid)
  show ?thesis
  proof (cases "delistProperty s ctx pid")
    case (Inl e)
    with DelistProperty assms show ?thesis by (simp add: state_after_def)
  next
    case (Inr r)
    obtain u s' where r: "r = (u, s')" by (cases r)
    from Inr r have "s' = s\<lparr>listedProperties := (listedProperties s)(pid := None)\<rparr>"
      by (simp add: delistProperty_Inr_iff)
    with assms have "ids_issued s'" by (simp add: ids_issued_def)
    with DelistProperty Inr r show ?thesis by (simp add: state_after_def)
  qed
next
  case (GetPropertyInfo pid)
  with assms show ?thesis
    by (simp add: getPropertyInfo_def state_after_def split: option.splits)
qed

lemma apply_call_fixed_fields:
  assumes "ids_issued s" and "listedProperties s k = Some p"
    and "listedProperties (apply_call s ctx c) k = Some p'"
  shows "same_fixed_fields p p'"
proof (cases c)
  case (CreatePropertyListing mbr a sh pr)
  show ?thesis
  proof (cases "createPropertyListing s ctx mbr a sh pr")
    case (Inl e)
    with CreatePropertyListing assms show ?thesis
      by (simp add: state_after_def same_fixed_fields_def)
  next
    case (Inr r)
    obtain pid s' where r: "r = (pid, s')" by (cases r)
    note c = createPropertyListing_Inr [OF Inr [unfolded r]]
    from c(6) have "idCounter s < pid"
      using inc_less_eq_self_iff_eq [of "idCounter s"] c(7) by (simp add: not_le)
    moreover from assms have "k \<le> idCounter s" by (auto simp: ids_issued_def)
    ultimately have "k \<noteq> pid" by auto
    then have "listedProperties s' k = listedProperties s k"
      by (subst c(8)) simp
    with CreatePropertyListing Inr r assms show ?thesis
      by (simp add: state_after_def same_fixed_fields_def)
  qed
next
  case (PurchaseFromLister pid sh pay)
  show ?thesis
  proof (cases "purchaseFromLister s ctx pid sh pay")
    case (Inl e)
    with PurchaseFromLister assms show ?thesis
      by (simp add: state_after_def same_fixed_fields_def)
  next
    case (Inr r)
    obtain b s' where r: "r = (b, s')" by (cases r)
    from purchaseFromLister_Inr [OF Inr [unfolded r]] obtain q t where
      q: "listedProperties s pid = Some q" and
      s': "s' = t\<lparr>listedProperties :=
           (listedProperties s)(pid \<mapsto> q\<lparr>availableShares := availableShares q - sh\<rparr>)\<rparr>"
      by blast
    from assms(3) PurchaseFromLister Inr r have "listedProperties s' k = Some p'"
      by (simp add: state_after_def)
    with s' q assms(2) show ?thesis
      by (cases "k = pid") (auto simp: same_fixed_fields_def)
  qed
next
  case (DelistProperty pid)
  show ?thesis
  proof (cases "delistProperty s ctx pid")
    case (Inl e)
    with DelistProperty assms show ?thesis
      by (simp add: state_after_def same_fixed_fields_def)
  next
    case (Inr r)
    obtain u s' where r: "r = (u, s')" by (cases r)
    from Inr r have "s' = s\<lparr>listedProperties := (listedProperties s)(pid := None)\<rparr>"
      by (simp add: delistProperty_Inr_iff)
    with DelistProperty Inr r assms show ?thesis
      by (cases "k = pid") (auto simp: state_after_def same_fixed_fields_def)
  qed
next
  case (GetPropertyInfo pid)
  with assms show ?thesis
    by (auto simp: getPropertyInfo_def state_after_def same_fixed_fields_def split: option.splits)
qed

subsection \<open>Custody of the asset supply\<close>

lemma apply_assetTransfer_holdings:
  assumes "apply_assetTransfer x f r n s = Inr t"
  shows "\<forall>a k. k \<noteq> x \<longrightarrow> holdings t a k = holdings s a k"
    and "\<exists>h. holdings s f x = Some h \<and> n \<le> h
           \<and> (holdings t f x = Some (h - n) \<or> holdings t f x = Some h)"
  using assms
  by (auto simp: apply_assetTransfer_def Let_def split: option.splits if_splits)

lemma submitGroup_holdings:
  assumes "submitGroup s ctx x r n m w = Inr t"
  shows "\<forall>a k. k \<noteq> x \<longrightarrow> holdings t a k = holdings s a k"
    and "\<exists>h. holdings s (currentApplicationAddress ctx) x = Some h \<and> n \<le> h
           \<and> (holdings t (currentApplicationAddress ctx) x = Some (h - n)
              \<or> holdings t (currentApplicationAddress ctx) x = Some h)"
proof -
  from assms obtain t2 where
    t: "apply_assetTransfer x (currentApplicationAddress ctx) r n s = Inr t2" and
    p: "apply_payment (currentApplicationAddress ctx) w m t2 = Inr t"
    by (auto simp: submitGroup_def split: sum.splits)
  from apply_payment_frame [OF p] have h: "holdings t = holdings t2" by simp
  from apply_assetTransfer_holdings(1) [OF t] h
  show "\<forall>a k. k \<noteq> x \<longrightarrow> holdings t a k = holdings s a k" by simp
  from apply_assetTransfer_holdings(2) [OF t] h
  show "\<exists>h. holdings s (currentApplicationAddress ctx) x = Some h \<and> n \<le> h
           \<and> (holdings t (currentApplicationAddress ctx) x = Some (h - n)
              \<or> holdings t (currentApplicationAddress ctx) x = Some h)" by simp
qed

lemma custody_inv_apply_call:
  assumes "custody_inv (currentApplicationAddress ctx) s" and "ids_issued s"
  shows "custody_inv (currentApplicationAddress ctx) (apply_call s ctx c)"
proof (cases c)
  case (CreatePropertyListing mbr a sh pr)
  show ?thesis
  proof (cases "createPropertyListing s ctx mbr a sh pr")
    case (Inl e)
    with CreatePropertyListing assms show ?thesis by (simp add: state_after_def)
  next
    case (Inr r)
    obtain pid s' where r: "r = (pid, s')" by (cases r)
    note c = createPropertyListing_Inr [OF Inr [unfolded r]]
    from c(6) have "idCounter s < pid"
      using inc_less_eq_self_iff_eq [of "idCounter s"] c(7) by (simp add: not_le)
    with assms(2) have fresh: "\<forall>k p. listedProperties s k = Some p \<longrightarrow> k \<noteq> pid"
      by (auto simp: ids_issued_def)
    with assms(1) have "custody_inv (currentApplicationAddress ctx) s'"
      by (subst c(8)) (auto simp: custody_inv_def)
    with CreatePropertyListing Inr r show ?thesis by (simp add: state_after_def)
  qed
next
  case (PurchaseFromLister pid sh pay)
  show ?thesis
  proof (cases "purchaseFromLister s ctx pid sh pay")
    case (Inl e)
    with PurchaseFromLister assms show ?thesis by (simp add: state_after_def)
  next
    case (Inr r)
    obtain b s' where r: "r = (b, s')" by (cases r)
    let ?app = "currentApplicationAddress ctx"
    from purchaseFromLister_Inr [OF Inr [unfolded r]] obtain p t where
      p: "listedProperties s pid = Some p" and le: "sh \<le> availableShares p" and
      t: "submitGroup s ctx (propertyAssetId p) (txnSender ctx) sh (amount pay) (ownerAddress p) = Inr t" and
      s': "s' = t\<lparr>listedProperties :=
           (listedProperties s)(pid \<mapsto> p\<lparr>availableShares := availableShares p - sh\<rparr>)\<rparr>"
      by blast
    from assms(1) p have id: "propertyAssetId p = pid"
      and "\<exists>a. assets s pid = Some a \<and> total a = totalShares p"
      and "\<exists>h. holdings s ?app pid = Some h \<and> availableShares p \<le> h"
      by (auto simp: custody_inv_def)
    then obtain h where h: "holdings s ?app pid = Some h" "availableShares p \<le> h"
      by blast
    note as = submitGroup_boxes(2) [OF t]
    from submitGroup_holdings(1) [OF t] id
    have other: "\<forall>k. k \<noteq> pid \<longrightarrow> holdings t ?app k = holdings s ?app k" by simp
    from submitGroup_holdings(2) [OF t] id h
    have "holdings t ?app pid = Some (h - sh) \<or> holdings t ?app pid = Some h" by simp
    moreover from le h(2) have "availableShares p - sh \<le> h - sh"
      by (simp add: word_le_nat_alt unat_sub)
    moreover from le h(2) have "availableShares p - sh \<le> h"
      by (simp add: word_le_nat_alt unat_sub)
    ultimately have mine: "\<exists>h'. holdings t ?app pid = Some h' \<and> availableShares p - sh \<le> h'"
      by auto
    have "custody_inv ?app s'"
      unfolding custody_inv_def
    proof (intro allI impI)
      fix k q
      assume q: "listedProperties s' k = Some q"
      show "propertyAssetId q = k
        \<and> (\<exists>a. assets s' k = Some a \<and> total a = totalShares q)
        \<and> (\<exists>h. holdings s' ?app k = Some h \<and> availableShares q \<le> h)"
      proof (cases "k = pid")
        case True
        with q s' have "q = p\<lparr>availableShares := availableShares p - sh\<rparr>" by simp
        with True s' id as mine assms(1) p show ?thesis
          by (auto simp: custody_inv_def)
      next
        case False
        with q s' have "listedProperties s k = Some q" by simp
        with False s' as other assms(1) show ?thesis
          by (auto simp: custody_inv_def)
      qed
    qed
    with PurchaseFromLister Inr r show ?thesis by (simp add: state_after_def)
  qed
next
  case (DelistProperty pid)
  show ?thesis
  proof (cases "delistProperty s ctx pid")
    case (Inl e)
    with DelistProperty assms show ?thesis by (simp add: state_after_def)
  next
    case (Inr r)
    obtain u s' where r: "r = (u, s')" by (cases r)
    from Inr r have "s' = s\<lparr>listedProperties := (listedProperties s)(pid := None)\<rparr>"
      by (simp add: delistProperty_Inr_iff)
    with assms have "custody_inv (currentApplicationAddress ctx) s'"
      by (simp add: custody_inv_def)
    with DelistProperty Inr r show ?thesis by (simp add: state_after_def)
  qed
next
  case (GetPropertyInfo pid)
  with assms show ?thesis
    by (simp add: getPropertyInfo_def state_after_def split: option.splits)
qed

subsection \<open>The concrete run, evaluated\<close>

lemmas ex_defs = ex_app_def ex_lister_def ex_buyer_def ex_lister_ctx_def ex_buyer_ctx_def
  ex_mbr_def ex_pay_def ex_empty_def ex_record_def ex_asset_def ex_listed_def ex_ready_def
  zeroAddress_def

lemmas op_defs = createPropertyListing_def createPropertyAsset_def submit_assetConfig_def
  boxMbrCost_def bytes_length_def u64_add_def u64_mul_def u64_sub_def purchaseFromLister_def
  submitGroup_def apply_assetTransfer_def apply_payment_def updateAvailableShares_def
  delistProperty_def getPropertyInfo_def Let_def

lemma ex_create:
  "createPropertyListing ex_empty ex_lister_ctx ex_mbr ''123 Main St'' 100 1000000 = Inr (1001, ex_listed)"
  by (simp add: ex_defs op_defs)



lemma ex_ready_record: "listedProperties ex_ready 1001 = Some ex_record"
  by (simp add: ex_defs)

lemma ex_listed_record: "listedProperties ex_listed 1001 = Some ex_record"
  by (simp add: ex_defs)

lemma ex_shares_inv: "shares_inv ex_ready"
  by (simp add: shares_inv_def ex_defs)

lemma ex_ids_issued: "ids_issued ex_ready"
  by (simp add: ids_issued_def ex_defs)

lemma ex_purchase_10:
  "purchaseFromLister ex_ready ex_buyer_ctx 1001 10 (ex_pay 10000000) =
     Inr (True, ex_ready\<lparr>listedProperties := [1001 \<mapsto> ex_record\<lparr>availableShares := 90\<rparr>],
        holdings := (\<lambda>a. Map.empty)(ex_app := [1001 \<mapsto> 90], ex_buyer := [1001 \<mapsto> 10]),
        algos := (\<lambda>a. 0)(ex_app := 90000000, ex_lister := 10000000)\<rparr>)"
  by (simp add: ex_defs op_defs)

lemma ex_purchase_all:
  "\<exists>s'. purchase_all ex_ready 1001 [(ex_buyer_ctx, 10, ex_pay 10000000), (ex_buyer_ctx, 20, ex_pay 20000000)] = Inr s'"
  apply (simp add: ex_purchase_10)
  apply (simp add: ex_defs op_defs)
  done

lemma ex_custody_inv: "custody_inv ex_app ex_listed"
  by (simp add: custody_inv_def ex_defs)

lemma ex_listed_ids_issued: "ids_issued ex_listed"
  by (simp add: ids_issued_def ex_defs)

lemma ex_delist:
  "delistProperty ex_listed ex_lister_ctx 1001 = Inr ((), ex_listed\<lparr>listedProperties := Map.empty\<rparr>)"
  by (simp add: ex_defs op_defs)

section \<open>The claims\<close>

text \<open>
  Claim C1. A purchase that returns has found the record, asked for no more shares than
  were available, and leaves a record whose \<^verbatim>\<open>availableShares\<close> is lower by exactly
  \<^verbatim>\<open>shares\<close>. A purchase that asks for more than the available shares fails and leaves
  the state as it was. Every call preserves \<^verbatim>\<open>availableShares <= totalShares\<close> on all
  records. After any sequence of returning purchases of one property the shares bought and
  the shares still available add up to the shares available at the start, so the shares
  bought never exceed \<^verbatim>\<open>totalShares\<close>.
\<close>

theorem purchaseFromLister_available_shares:
  "(\<forall>b s'. purchaseFromLister s ctx pid sh pay = Inr (b, s') \<longrightarrow>
      (\<exists>p p'. listedProperties s pid = Some p \<and> listedProperties s' pid = Some p'
         \<and> sh \<le> availableShares p
         \<and> availableShares p' = availableShares p - sh
         \<and> unat (availableShares p') + unat sh = unat (availableShares p)))
   \<and> (\<forall>p. listedProperties s pid = Some p \<and> availableShares p < sh \<longrightarrow>
         isl (purchaseFromLister s ctx pid sh pay)
         \<and> state_after s (purchaseFromLister s ctx pid sh pay) = s)
   \<and> (shares_inv s \<longrightarrow> shares_inv (apply_call s ctx c))
   \<and> (\<forall>p s'. listedProperties s pid = Some p \<and> availableShares p \<le> totalShares p
         \<and> purchase_all s pid calls = Inr s' \<longrightarrow>
         (\<exists>p'. listedProperties s' pid = Some p'
            \<and> unat (availableShares p') + purchased calls = unat (availableShares p)
            \<and> totalShares p' = totalShares p
            \<and> availableShares p' \<le> totalShares p'
            \<and> purchased calls \<le> unat (totalShares p)))"
proof (intro conjI allI impI)
  fix b s'
  assume "purchaseFromLister s ctx pid sh pay = Inr (b, s')"
  from purchase_step_available [OF this]
  show "\<exists>p p'. listedProperties s pid = Some p \<and> listedProperties s' pid = Some p'
         \<and> sh \<le> availableShares p
         \<and> availableShares p' = availableShares p - sh
         \<and> unat (availableShares p') + unat sh = unat (availableShares p)"
    by auto
next
  fix p
  assume a: "listedProperties s pid = Some p \<and> availableShares p < sh"
  then obtain e where e: "purchaseFromLister s ctx pid sh pay = Inl e"
    using purchase_too_many [of s pid p sh ctx pay] by blast
  then show "isl (purchaseFromLister s ctx pid sh pay)" by simp
  from e show "state_after s (purchaseFromLister s ctx pid sh pay) = s"
    by (simp add: state_after_Inl)
next
  assume "shares_inv s"
  then show "shares_inv (apply_call s ctx c)" by (rule shares_inv_apply_call)
next
  fix p s'
  assume a: "listedProperties s pid = Some p \<and> availableShares p \<le> totalShares p
         \<and> purchase_all s pid calls = Inr s'"
  from purchase_all_sum [of s pid p calls s'] a obtain p' where
    p': "listedProperties s' pid = Some p'" "p' = p\<lparr>availableShares := availableShares p'\<rparr>"
      "unat (availableShares p') + purchased calls = unat (availableShares p)"
    by blast
  have t: "totalShares p' = totalShares p" by (subst p'(2)) simp
  from a have "unat (availableShares p) \<le> unat (totalShares p)"
    by (simp add: word_le_nat_alt)
  with p'(3) have "unat (availableShares p') \<le> unat (totalShares p)"
    and s: "purchased calls \<le> unat (totalShares p)" by arith+
  then have "availableShares p' \<le> totalShares p'" by (simp add: t word_le_nat_alt)
  with p' t s show "\<exists>p'. listedProperties s' pid = Some p'
            \<and> unat (availableShares p') + purchased calls = unat (availableShares p)
            \<and> totalShares p' = totalShares p
            \<and> availableShares p' \<le> totalShares p'
            \<and> purchased calls \<le> unat (totalShares p)"
    by blast
qed

text \<open>The same at the concrete run.\<close>

theorem purchaseFromLister_available_shares_witness:
  "(\<exists>s' p'. purchaseFromLister ex_ready ex_buyer_ctx 1001 10 (ex_pay 10000000) = Inr (True, s')
       \<and> listedProperties s' 1001 = Some p' \<and> availableShares p' = 90)
   \<and> isl (purchaseFromLister ex_ready ex_buyer_ctx 1001 101 (ex_pay 101000000))
   \<and> shares_inv (apply_call ex_ready ex_buyer_ctx (PurchaseFromLister 1001 10 (ex_pay 10000000)))
   \<and> (\<exists>s' p'. purchase_all ex_ready 1001
          [(ex_buyer_ctx, 10, ex_pay 10000000), (ex_buyer_ctx, 20, ex_pay 20000000)] = Inr s'
        \<and> listedProperties s' 1001 = Some p' \<and> unat (availableShares p') + 30 = 100)"
proof -
  let ?c = "PurchaseFromLister 1001 10 (ex_pay 10000000)"
  let ?calls = "[(ex_buyer_ctx, 10, ex_pay 10000000), (ex_buyer_ctx, 20, ex_pay 20000000)]"
  note t1 = purchaseFromLister_available_shares
    [where s = ex_ready and ctx = ex_buyer_ctx and pid = 1001 and sh = 10
       and pay = "ex_pay 10000000" and c = ?c and calls = ?calls]
  note t2 = purchaseFromLister_available_shares
    [where s = ex_ready and ctx = ex_buyer_ctx and pid = 1001 and sh = 101
       and pay = "ex_pay 101000000" and c = ?c and calls = ?calls]
  have r: "listedProperties ex_ready 1001 = Some ex_record" by (rule ex_ready_record)
  have a: "availableShares ex_record = 100" "totalShares ex_record = 100"
    by (simp_all add: ex_defs)
  obtain s1 where s1: "purchaseFromLister ex_ready ex_buyer_ctx 1001 10 (ex_pay 10000000) = Inr (True, s1)"
    using ex_purchase_10 by blast
  obtain s2 where s2: "purchase_all ex_ready 1001 ?calls = Inr s2"
    using ex_purchase_all by blast
  have p: "purchased ?calls = 30" by (simp add: purchased_def)
  from t1 s1 r a have "\<exists>p'. listedProperties s1 1001 = Some p' \<and> availableShares p' = 90"
    by fastforce
  moreover from t2 r a have "isl (purchaseFromLister ex_ready ex_buyer_ctx 1001 101 (ex_pay 101000000))"
    by fastforce
  moreover from t1 ex_shares_inv have "shares_inv (apply_call ex_ready ex_buyer_ctx ?c)"
    by blast
  moreover from t1 s2 r a p have "\<exists>p'. listedProperties s2 1001 = Some p'
      \<and> unat (availableShares p') + 30 = 100"
    by fastforce
  ultimately show ?thesis using s1 s2 by blast
qed

text \<open>
  Claim C2. A purchase returns only if the payment's amount is \<^verbatim>\<open>shares * pricePerShare\<close>
  of the record, as a product of natural numbers, its receiver is the application account,
  its sender is the caller, and its close-remainder-to and rekey-to fields are the zero
  address. A payment that breaks one of these makes the call fail, and the state, with
  every record in it, stays as it was.
\<close>

theorem purchaseFromLister_payment_matches:
  "(\<forall>b s'. purchaseFromLister s ctx pid sh pay = Inr (b, s') \<longrightarrow>
      (\<exists>p. listedProperties s pid = Some p
         \<and> unat (amount pay) = unat sh * unat (pricePerShare p)
         \<and> receiver pay = currentApplicationAddress ctx
         \<and> sender pay = txnSender ctx
         \<and> closeRemainderTo pay = zeroAddress
         \<and> rekeyTo pay = zeroAddress))
   \<and> (\<forall>p. listedProperties s pid = Some p
         \<and> (unat (amount pay) \<noteq> unat sh * unat (pricePerShare p)
            \<or> receiver pay \<noteq> currentApplicationAddress ctx
            \<or> sender pay \<noteq> txnSender ctx
            \<or> closeRemainderTo pay \<noteq> zeroAddress
            \<or> rekeyTo pay \<noteq> zeroAddress) \<longrightarrow>
         isl (purchaseFromLister s ctx pid sh pay)
         \<and> state_after s (purchaseFromLister s ctx pid sh pay) = s)"
proof -
  have ok: "\<exists>p. listedProperties s pid = Some p
         \<and> unat (amount pay) = unat sh * unat (pricePerShare p)
         \<and> receiver pay = currentApplicationAddress ctx
         \<and> sender pay = txnSender ctx
         \<and> closeRemainderTo pay = zeroAddress
         \<and> rekeyTo pay = zeroAddress"
    if "purchaseFromLister s ctx pid sh pay = Inr (b, s')" for b s'
  proof -
    from purchaseFromLister_Inr [OF that] obtain p where
      p: "listedProperties s pid = Some p" "u64_mul sh (pricePerShare p) = Inr (amount pay)"
         "receiver pay = currentApplicationAddress ctx" "sender pay = txnSender ctx"
         "closeRemainderTo pay = zeroAddress" "rekeyTo pay = zeroAddress"
      by blast
    from p u64_mul_unat [OF p(2)] show ?thesis by simp
  qed
  have bad: "isl (purchaseFromLister s ctx pid sh pay)"
    if "listedProperties s pid = Some p"
      and "unat (amount pay) \<noteq> unat sh * unat (pricePerShare p)
            \<or> receiver pay \<noteq> currentApplicationAddress ctx
            \<or> sender pay \<noteq> txnSender ctx
            \<or> closeRemainderTo pay \<noteq> zeroAddress
            \<or> rekeyTo pay \<noteq> zeroAddress" for p
  proof (cases "purchaseFromLister s ctx pid sh pay")
    case (Inl e)
    then show ?thesis by simp
  next
    case (Inr r)
    obtain b s' where "r = (b, s')" by (cases r)
    with Inr ok [of b s'] that show ?thesis by auto
  qed
  from ok bad show ?thesis by (auto simp: state_after_isl)
qed

text \<open>The same at the concrete run.\<close>

theorem purchaseFromLister_payment_matches_witness:
  "(\<exists>s'. purchaseFromLister ex_ready ex_buyer_ctx 1001 10 (ex_pay 10000000) = Inr (True, s'))
   \<and> unat (amount (ex_pay 10000000)) = unat (10 :: uint64) * unat (pricePerShare ex_record)
   \<and> unat (amount (ex_pay 9999999)) \<noteq> unat (10 :: uint64) * unat (pricePerShare ex_record)
   \<and> isl (purchaseFromLister ex_ready ex_buyer_ctx 1001 10 (ex_pay 9999999))
   \<and> state_after ex_ready (purchaseFromLister ex_ready ex_buyer_ctx 1001 10 (ex_pay 9999999)) = ex_ready"
proof -
  note t1 = purchaseFromLister_payment_matches
    [where s = ex_ready and ctx = ex_buyer_ctx and pid = 1001 and sh = 10 and pay = "ex_pay 10000000"]
  note t2 = purchaseFromLister_payment_matches
    [where s = ex_ready and ctx = ex_buyer_ctx and pid = 1001 and sh = 10 and pay = "ex_pay 9999999"]
  have r: "listedProperties ex_ready 1001 = Some ex_record" by (rule ex_ready_record)
  have bad: "unat (amount (ex_pay 9999999)) \<noteq> unat (10 :: uint64) * unat (pricePerShare ex_record)"
    by (simp add: ex_defs)
  from t1 ex_purchase_10 r
  have "unat (amount (ex_pay 10000000)) = unat (10 :: uint64) * unat (pricePerShare ex_record)"
    by fastforce
  moreover from t2 r bad
  have "isl (purchaseFromLister ex_ready ex_buyer_ctx 1001 10 (ex_pay 9999999))
     \<and> state_after ex_ready (purchaseFromLister ex_ready ex_buyer_ctx 1001 10 (ex_pay 9999999)) = ex_ready"
    by blast
  ultimately show ?thesis using ex_purchase_10 bad by blast
qed

text \<open>
  Claim C3. \<^verbatim>\<open>delistProperty\<close> returns if and only if a record exists for the identifier,
  the caller is its \<^verbatim>\<open>ownerAddress\<close> and its \<^verbatim>\<open>availableShares\<close> equals its
  \<^verbatim>\<open>totalShares\<close>. When it returns, the record is removed from the box map; when it
  fails, the state is unchanged.
\<close>

theorem delistProperty_succeeds_iff:
  "((\<exists>s'. delistProperty s ctx pid = Inr ((), s')) \<longleftrightarrow>
      (\<exists>p. listedProperties s pid = Some p \<and> txnSender ctx = ownerAddress p
         \<and> availableShares p = totalShares p))
   \<and> (\<forall>s'. delistProperty s ctx pid = Inr ((), s') \<longrightarrow>
         listedProperties s' = (listedProperties s)(pid := None))
   \<and> (isl (delistProperty s ctx pid) \<longrightarrow>
         state_after s (delistProperty s ctx pid) = s)"
  by (auto simp: delistProperty_Inr_iff state_after_isl)

text \<open>The same at the concrete run.\<close>

theorem delistProperty_succeeds_iff_witness:
  "(\<exists>s'. delistProperty ex_listed ex_lister_ctx 1001 = Inr ((), s')
       \<and> listedProperties s' = (listedProperties ex_listed)(1001 := None))
   \<and> txnSender ex_buyer_ctx \<noteq> ownerAddress ex_record
   \<and> isl (delistProperty ex_listed ex_buyer_ctx 1001)
   \<and> state_after ex_listed (delistProperty ex_listed ex_buyer_ctx 1001) = ex_listed"
proof -
  note t1 = delistProperty_succeeds_iff [where s = ex_listed and ctx = ex_lister_ctx and pid = 1001]
  note t2 = delistProperty_succeeds_iff [where s = ex_listed and ctx = ex_buyer_ctx and pid = 1001]
  have r: "listedProperties ex_listed 1001 = Some ex_record" by (rule ex_listed_record)
  have own: "txnSender ex_lister_ctx = ownerAddress ex_record"
    "availableShares ex_record = totalShares ex_record"
    by (simp_all add: ex_defs)
  have other: "txnSender ex_buyer_ctx \<noteq> ownerAddress ex_record"
    by (simp add: ex_defs)
  from t1 r own have "\<exists>s'. delistProperty ex_listed ex_lister_ctx 1001 = Inr ((), s')
       \<and> listedProperties s' = (listedProperties ex_listed)(1001 := None)"
    by blast
  moreover from t2 r other have "\<not> (\<exists>s'. delistProperty ex_listed ex_buyer_ctx 1001 = Inr ((), s'))"
    by simp
  then have f: "isl (delistProperty ex_listed ex_buyer_ctx 1001)"
    by (cases "delistProperty ex_listed ex_buyer_ctx 1001") auto
  moreover from t2 f
  have "state_after ex_listed (delistProperty ex_listed ex_buyer_ctx 1001) = ex_listed"
    by blast
  ultimately show ?thesis using other by blast
qed

text \<open>
  Claim C4. A \<^verbatim>\<open>createPropertyListing\<close> call that returns had \<^verbatim>\<open>shares > 0\<close> and
  \<^verbatim>\<open>pricePerShare > 0\<close>, and the record stored under the returned identifier has
  \<^verbatim>\<open>availableShares = totalShares = shares\<close>, the given address and price, the returned
  identifier as \<^verbatim>\<open>propertyAssetId\<close> and the caller as \<^verbatim>\<open>ownerAddress\<close>. A call with
  \<^verbatim>\<open>shares = 0\<close> or \<^verbatim>\<open>pricePerShare = 0\<close> fails and leaves the state unchanged: no
  record is written and no asset is created.
\<close>

theorem createPropertyListing_record:
  "(\<forall>pid s'. createPropertyListing s ctx mbr a sh pr = Inr (pid, s') \<longrightarrow>
      0 < sh \<and> 0 < pr
      \<and> listedProperties s' pid =
          Some \<lparr>address = a, totalShares = sh, availableShares = sh, pricePerShare = pr,
                propertyAssetId = pid, ownerAddress = txnSender ctx\<rparr>)
   \<and> (sh = 0 \<or> pr = 0 \<longrightarrow>
         isl (createPropertyListing s ctx mbr a sh pr)
         \<and> state_after s (createPropertyListing s ctx mbr a sh pr) = s)"
proof (intro conjI allI impI)
  fix pid s'
  assume r: "createPropertyListing s ctx mbr a sh pr = Inr (pid, s')"
  note c = createPropertyListing_Inr [OF r]
  from c(1) show "0 < sh" .
  from c(2) show "0 < pr" .
  show "listedProperties s' pid =
          Some \<lparr>address = a, totalShares = sh, availableShares = sh, pricePerShare = pr,
                propertyAssetId = pid, ownerAddress = txnSender ctx\<rparr>"
    by (subst c(8)) simp
next
  assume z: "sh = 0 \<or> pr = 0"
  then show "isl (createPropertyListing s ctx mbr a sh pr)"
    by (auto simp: createPropertyListing_def)
  then show "state_after s (createPropertyListing s ctx mbr a sh pr) = s"
    by (rule state_after_isl)
qed

text \<open>The same at the concrete run.\<close>

theorem createPropertyListing_record_witness:
  "(\<exists>s'. createPropertyListing ex_empty ex_lister_ctx ex_mbr ''123 Main St'' 100 1000000 = Inr (1001, s')
      \<and> listedProperties s' 1001 = Some ex_record)
   \<and> isl (createPropertyListing ex_empty ex_lister_ctx ex_mbr ''123 Main St'' 0 1000000)
   \<and> state_after ex_empty (createPropertyListing ex_empty ex_lister_ctx ex_mbr ''123 Main St'' 0 1000000)
       = ex_empty"
proof -
  note t1 = createPropertyListing_record
    [where s = ex_empty and ctx = ex_lister_ctx and mbr = ex_mbr and a = "''123 Main St''"
       and sh = 100 and pr = 1000000]
  note t2 = createPropertyListing_record
    [where s = ex_empty and ctx = ex_lister_ctx and mbr = ex_mbr and a = "''123 Main St''"
       and sh = 0 and pr = 1000000]
  have e: "ex_record = \<lparr>address = ''123 Main St'', totalShares = 100, availableShares = 100,
      pricePerShare = 1000000, propertyAssetId = 1001, ownerAddress = txnSender ex_lister_ctx\<rparr>"
    by (simp add: ex_defs)
  from t1 ex_create have "listedProperties ex_listed 1001 = Some ex_record"
    by (simp add: e)
  moreover from t2
  have "isl (createPropertyListing ex_empty ex_lister_ctx ex_mbr ''123 Main St'' 0 1000000)
   \<and> state_after ex_empty (createPropertyListing ex_empty ex_lister_ctx ex_mbr ''123 Main St'' 0 1000000)
       = ex_empty"
    by blast
  ultimately show ?thesis using ex_create by blast
qed



text \<open>
  Claim C6. After a \<^verbatim>\<open>createPropertyListing\<close> call that returns, the asset with the
  returned identifier has total supply \<^verbatim>\<open>shares\<close>, zero decimals, and the application
  account as manager and reserve; the whole supply is held by the application account. Its
  name is the first \<^verbatim>\<open>min 32 n\<close> bytes of the address of \<^verbatim>\<open>n\<close> bytes, and its unit name
  is the constant \<^verbatim>\<open>PROP\<close>.
\<close>

theorem createPropertyListing_asset:
  assumes "createPropertyListing s ctx mbr a sh pr = Inr (pid, s')"
  shows "\<exists>params. assets s' pid = Some params
           \<and> total params = sh \<and> decimals params = 0
           \<and> manager params = currentApplicationAddress ctx
           \<and> reserve params = currentApplicationAddress ctx
           \<and> unitName params = ''PROP''
           \<and> assetName params = take (min 32 (length a)) a
           \<and> length (assetName params) = min 32 (length a)
           \<and> holdings s' (currentApplicationAddress ctx) pid = Some sh"
proof -
  note c = createPropertyListing_Inr [OF assms]
  show ?thesis using c(8) by (simp add: min_def)
qed

text \<open>The same at the concrete run.\<close>

theorem createPropertyListing_asset_witness:
  "createPropertyListing ex_empty ex_lister_ctx ex_mbr ''123 Main St'' 100 1000000 = Inr (1001, ex_listed)
   \<and> (\<exists>params. assets ex_listed 1001 = Some params \<and> total params = 100
         \<and> decimals params = 0 \<and> manager params = ex_app \<and> reserve params = ex_app
         \<and> assetName params = ''123 Main St'')
   \<and> holdings ex_listed ex_app 1001 = Some 100"
proof -
  have app: "currentApplicationAddress ex_lister_ctx = ex_app" by (simp add: ex_defs)
  from createPropertyListing_asset [OF ex_create] ex_create show ?thesis
    by (auto simp: app)
qed

text \<open>
  Claim C7. \<^verbatim>\<open>getPropertyInfo\<close> returns the stored record when one exists and fails with
  the message \<^verbatim>\<open>Property not listed\<close> when none does; either way the state is unchanged.
  After a \<^verbatim>\<open>delistProperty\<close> that returned, it fails for the delisted identifier.
\<close>

theorem getPropertyInfo_readonly:
  "(\<forall>p. listedProperties s pid = Some p \<longrightarrow> getPropertyInfo s pid = Inr (p, s))
   \<and> (listedProperties s pid = None \<longrightarrow>
         getPropertyInfo s pid = Inl (AssertFailed ''Property not listed''))
   \<and> state_after s (getPropertyInfo s pid) = s
   \<and> (\<forall>s' ctx. delistProperty s ctx pid = Inr ((), s') \<longrightarrow>
         getPropertyInfo s' pid = Inl (AssertFailed ''Property not listed''))"
  by (auto simp: getPropertyInfo_def state_after_def delistProperty_Inr_iff split: option.splits)

text \<open>The same at the concrete run.\<close>

theorem getPropertyInfo_readonly_witness:
  "getPropertyInfo ex_listed 1001 = Inr (ex_record, ex_listed)
   \<and> getPropertyInfo ex_listed 1002 = Inl (AssertFailed ''Property not listed'')
   \<and> getPropertyInfo (ex_listed\<lparr>listedProperties := Map.empty\<rparr>) 1001
       = Inl (AssertFailed ''Property not listed'')"
proof -
  note t1 = getPropertyInfo_readonly [where s = ex_listed and pid = 1001]
  note t2 = getPropertyInfo_readonly [where s = ex_listed and pid = 1002]
  have n: "listedProperties ex_listed 1002 = None" by (simp add: ex_defs)
  from t1 ex_listed_record have "getPropertyInfo ex_listed 1001 = Inr (ex_record, ex_listed)"
    by blast
  moreover from t2 n have "getPropertyInfo ex_listed 1002 = Inl (AssertFailed ''Property not listed'')"
    by blast
  moreover from t1 ex_delist have "getPropertyInfo (ex_listed\<lparr>listedProperties := Map.empty\<rparr>) 1001
       = Inl (AssertFailed ''Property not listed'')"
    by blast
  ultimately show ?thesis by blast
qed

text \<open>
  Claim C8. A purchase that returns changes the box map at its \<^verbatim>\<open>propertyId\<close> only, and
  there only the field \<^verbatim>\<open>availableShares\<close>. No call changes the address, the total
  shares, the price, the asset identifier or the owner of a record that exists before and
  after it. The second part holds in every state whose keys are identifiers the ledger
  has issued, and every call keeps the state so.
\<close>

theorem record_fields_immutable:
  "(\<forall>b s'. purchaseFromLister s ctx pid sh pay = Inr (b, s') \<longrightarrow>
      (\<exists>p. listedProperties s pid = Some p
         \<and> listedProperties s' =
             (listedProperties s)(pid \<mapsto> p\<lparr>availableShares := availableShares p - sh\<rparr>)))
   \<and> (\<forall>p p'. ids_issued s \<and> listedProperties s k = Some p
         \<and> listedProperties (apply_call s ctx c) k = Some p' \<longrightarrow>
         address p' = address p \<and> totalShares p' = totalShares p
         \<and> pricePerShare p' = pricePerShare p \<and> propertyAssetId p' = propertyAssetId p
         \<and> ownerAddress p' = ownerAddress p)
   \<and> (ids_issued s \<longrightarrow> ids_issued (apply_call s ctx c))"
proof -
  have only: "\<exists>p. listedProperties s pid = Some p
         \<and> listedProperties s' =
             (listedProperties s)(pid \<mapsto> p\<lparr>availableShares := availableShares p - sh\<rparr>)"
    if "purchaseFromLister s ctx pid sh pay = Inr (b, s')" for b s'
    using purchaseFromLister_Inr [OF that] by auto
  have fixed: "address p' = address p \<and> totalShares p' = totalShares p
         \<and> pricePerShare p' = pricePerShare p \<and> propertyAssetId p' = propertyAssetId p
         \<and> ownerAddress p' = ownerAddress p"
    if "ids_issued s" and "listedProperties s k = Some p"
      and "listedProperties (apply_call s ctx c) k = Some p'" for p p'
    using apply_call_fixed_fields [OF that] by (simp add: same_fixed_fields_def)
  have fresh: "ids_issued (apply_call s ctx c)" if "ids_issued s"
    using that by (rule ids_issued_apply_call)
  from only fixed fresh show ?thesis by blast
qed

text \<open>The same at the concrete run.\<close>

theorem record_fields_immutable_witness:
  "(\<exists>s'. purchaseFromLister ex_ready ex_buyer_ctx 1001 10 (ex_pay 10000000) = Inr (True, s')
      \<and> listedProperties s' = (listedProperties ex_ready)(1001 \<mapsto> ex_record\<lparr>availableShares := 90\<rparr>))
   \<and> ids_issued ex_ready
   \<and> ids_issued (apply_call ex_ready ex_buyer_ctx (PurchaseFromLister 1001 10 (ex_pay 10000000)))
   \<and> (\<exists>p'. listedProperties (apply_call ex_ready ex_buyer_ctx
                (PurchaseFromLister 1001 10 (ex_pay 10000000))) 1001 = Some p'
         \<and> address p' = ''123 Main St'' \<and> totalShares p' = 100 \<and> pricePerShare p' = 1000000
         \<and> propertyAssetId p' = 1001 \<and> ownerAddress p' = ex_lister)"
proof -
  let ?c = "PurchaseFromLister 1001 10 (ex_pay 10000000)"
  note t = record_fields_immutable
    [where s = ex_ready and ctx = ex_buyer_ctx and pid = 1001 and sh = 10
       and pay = "ex_pay 10000000" and c = ?c and k = 1001]
  have a: "availableShares ex_record - 10 = 90" by (simp add: ex_defs)
  have f: "address ex_record = ''123 Main St''" "totalShares ex_record = 100"
    "pricePerShare ex_record = 1000000" "propertyAssetId ex_record = 1001"
    "ownerAddress ex_record = ex_lister"
    by (simp_all add: ex_defs)
  obtain p' where p': "listedProperties (apply_call ex_ready ex_buyer_ctx ?c) 1001 = Some p'"
    by (simp add: ex_purchase_10 state_after_def)
  obtain s' where s': "purchaseFromLister ex_ready ex_buyer_ctx 1001 10 (ex_pay 10000000) = Inr (True, s')"
    using ex_purchase_10 by blast
  from t [THEN conjunct1, rule_format, OF s'] ex_ready_record a
  have 1: "listedProperties s' = (listedProperties ex_ready)(1001 \<mapsto> ex_record\<lparr>availableShares := 90\<rparr>)"
    by auto
  from t [THEN conjunct2, THEN conjunct2, rule_format, OF ex_ids_issued]
  have 2: "ids_issued (apply_call ex_ready ex_buyer_ctx ?c)" .
  from t [THEN conjunct2, THEN conjunct1, rule_format, of ex_record p'] ex_ids_issued ex_ready_record p' f
  have 3: "address p' = ''123 Main St'' \<and> totalShares p' = 100 \<and> pricePerShare p' = 1000000
         \<and> propertyAssetId p' = 1001 \<and> ownerAddress p' = ex_lister"
    by simp
  from s' 1 have "\<exists>s'. purchaseFromLister ex_ready ex_buyer_ctx 1001 10 (ex_pay 10000000) = Inr (True, s')
      \<and> listedProperties s' = (listedProperties ex_ready)(1001 \<mapsto> ex_record\<lparr>availableShares := 90\<rparr>)"
    by blast
  moreover from p' 3 have "\<exists>p'. listedProperties (apply_call ex_ready ex_buyer_ctx ?c) 1001 = Some p'
         \<and> address p' = ''123 Main St'' \<and> totalShares p' = 100 \<and> pricePerShare p' = 1000000
         \<and> propertyAssetId p' = 1001 \<and> ownerAddress p' = ex_lister"
    by blast
  ultimately show ?thesis using ex_ids_issued 2 by blast
qed

text \<open>
  Claim C9. When \<^verbatim>\<open>shares * pricePerShare\<close> of the record exceeds \<^verbatim>\<open>2^64 - 1\<close>, the
  purchase fails with an overflow, whatever the payment, also when the payment's amount is
  the product modulo \<^verbatim>\<open>2^64\<close>; the state is unchanged.
\<close>

theorem purchaseFromLister_overflow_fails:
  assumes "listedProperties s pid = Some p"
    and "2 ^ 64 \<le> unat sh * unat (pricePerShare p)"
  shows "purchaseFromLister s ctx pid sh pay = Inl Overflow
         \<and> state_after s (purchaseFromLister s ctx pid sh pay) = s"
proof -
  from assms(2) have "0 < unat sh" by (cases "unat sh = 0") simp_all
  then have "0 < sh" by (simp add: word_less_nat_alt)
  with assms have "purchaseFromLister s ctx pid sh pay = Inl Overflow"
    by (simp add: purchaseFromLister_def u64_mul_def)
  then show ?thesis by (simp add: state_after_Inl)
qed

text \<open>The same at the concrete run.\<close>

theorem purchaseFromLister_overflow_fails_witness:
  "(2 :: nat) ^ 64 \<le> unat (35184372088832 :: uint64) * unat (pricePerShare ex_record)
   \<and> (35184372088832 :: uint64) * pricePerShare ex_record = 16737628015122448384
   \<and> purchaseFromLister ex_ready ex_buyer_ctx 1001 35184372088832 (ex_pay 16737628015122448384) = Inl Overflow
   \<and> state_after ex_ready
        (purchaseFromLister ex_ready ex_buyer_ctx 1001 35184372088832 (ex_pay 16737628015122448384)) = ex_ready"
proof -
  have big: "(2 :: nat) ^ 64 \<le> unat (35184372088832 :: uint64) * unat (pricePerShare ex_record)"
    by (simp add: ex_defs)
  have wrap: "(35184372088832 :: uint64) * pricePerShare ex_record = 16737628015122448384"
    by (simp add: ex_defs)
  from purchaseFromLister_overflow_fails [OF ex_ready_record big] big wrap show ?thesis
    by blast
qed

text \<open>
  Claim C10. A \<^verbatim>\<open>delistProperty\<close> that returns removes the record of its identifier and
  nothing else: every other record, every asset, every holding and every balance is as
  before, so the asset is not destroyed and no unit leaves the application account. Where
  the application account had custody of the shares on offer, which every call preserves,
  the asset of the delisted property still exists and the application account holds at
  least its whole supply.
\<close>

theorem delistProperty_deletes_record_only:
  "(\<forall>u s'. delistProperty s ctx pid = Inr (u, s') \<longrightarrow>
      listedProperties s' pid = None
      \<and> (\<forall>k. k \<noteq> pid \<longrightarrow> listedProperties s' k = listedProperties s k)
      \<and> assets s' = assets s \<and> holdings s' = holdings s
      \<and> algos s' = algos s \<and> idCounter s' = idCounter s
      \<and> (custody_inv (currentApplicationAddress ctx) s \<longrightarrow>
           (\<exists>a h. assets s' pid = Some a
              \<and> holdings s' (currentApplicationAddress ctx) pid = Some h \<and> total a \<le> h)))
   \<and> (custody_inv (currentApplicationAddress ctx) s \<and> ids_issued s \<longrightarrow>
         custody_inv (currentApplicationAddress ctx) (apply_call s ctx c))"
proof -
  have frame: "listedProperties s' pid = None
      \<and> (\<forall>k. k \<noteq> pid \<longrightarrow> listedProperties s' k = listedProperties s k)
      \<and> assets s' = assets s \<and> holdings s' = holdings s
      \<and> algos s' = algos s \<and> idCounter s' = idCounter s"
    if "delistProperty s ctx pid = Inr (u, s')" for u s'
    using that by (simp add: delistProperty_Inr_iff)
  have custody: "\<exists>a h. assets s' pid = Some a
              \<and> holdings s' (currentApplicationAddress ctx) pid = Some h \<and> total a \<le> h"
    if d: "delistProperty s ctx pid = Inr (u, s')"
      and i: "custody_inv (currentApplicationAddress ctx) s" for u s'
  proof -
    from d obtain p where p: "listedProperties s pid = Some p"
      and all: "availableShares p = totalShares p"
      by (auto simp: delistProperty_Inr_iff)
    from i [unfolded custody_inv_def, rule_format, OF p]
    obtain a h where "assets s pid = Some a" "total a = totalShares p"
      "holdings s (currentApplicationAddress ctx) pid = Some h" "availableShares p \<le> h"
      by blast
    with all frame [OF d] show ?thesis by simp
  qed
  have keep: "custody_inv (currentApplicationAddress ctx) (apply_call s ctx c)"
    if "custody_inv (currentApplicationAddress ctx) s" and "ids_issued s"
    using that by (rule custody_inv_apply_call)
  from frame custody keep show ?thesis by blast
qed

text \<open>The same at the concrete run.\<close>

theorem delistProperty_deletes_record_only_witness:
  "createPropertyListing ex_empty ex_lister_ctx ex_mbr ''123 Main St'' 100 1000000 = Inr (1001, ex_listed)
   \<and> custody_inv ex_app ex_listed \<and> ids_issued ex_listed
   \<and> custody_inv ex_app (apply_call ex_listed ex_lister_ctx (DelistProperty 1001))
   \<and> (\<exists>s'. delistProperty ex_listed ex_lister_ctx 1001 = Inr ((), s')
         \<and> listedProperties s' 1001 = None
         \<and> assets s' 1001 = Some ex_asset
         \<and> holdings s' ex_app 1001 = Some (total ex_asset)
         \<and> (\<exists>a h. assets s' 1001 = Some a \<and> holdings s' ex_app 1001 = Some h \<and> total a \<le> h))"
proof -
  note t = delistProperty_deletes_record_only
    [where s = ex_listed and ctx = ex_lister_ctx and pid = 1001 and c = "DelistProperty 1001"]
  have app: "currentApplicationAddress ex_lister_ctx = ex_app" by (simp add: ex_defs)
  have l: "assets ex_listed 1001 = Some ex_asset"
    "holdings ex_listed ex_app 1001 = Some (total ex_asset)"
    by (simp_all add: ex_defs)
  obtain s' where s': "delistProperty ex_listed ex_lister_ctx 1001 = Inr ((), s')"
    using ex_delist by blast
  note f = t [THEN conjunct1, rule_format, OF s', unfolded app]
  from f l have 1: "listedProperties s' 1001 = None" "assets s' 1001 = Some ex_asset"
    "holdings s' ex_app 1001 = Some (total ex_asset)"
    by simp_all
  from f ex_custody_inv
  have 2: "\<exists>a h. assets s' 1001 = Some a \<and> holdings s' ex_app 1001 = Some h \<and> total a \<le> h"
    by blast
  from t [THEN conjunct2, unfolded app] ex_custody_inv ex_listed_ids_issued
  have 3: "custody_inv ex_app (apply_call ex_listed ex_lister_ctx (DelistProperty 1001))"
    by blast
  from s' 1 2 3 ex_create ex_custody_inv ex_listed_ids_issued show ?thesis by blast
qed

end
